theory Spec2Isabelle
  imports Complex_Main "HOL-Library.Log_Nat"
begin

section \<open>The Sims-Flanagan leg of keplerian\_toolbox (leg.h)\<close>

text \<open>
  A shallow embedding of class \<open>kep_toolbox::sims_flanagan::leg\<close>. The C++ type
  \<open>double\<close> is modelled by \<^typ>\<open>real\<close>: the arithmetic is exact, there is no rounding,
  no infinity and no NaN. Where the sign of a computed value is at stake, in the throttle
  constraints, the routine is modelled a second time with the rounding of every product
  and sum as a parameter, and the rounding of IEEE 754 doubles is defined. Sizes and loop counters are natural numbers: a vector of
  throttles is far shorter than the range of \<open>int\<close>, so the conversions between
  \<open>size_t\<close> and \<open>int\<close> in the source do not wrap. An exception or an abort is a value
  of type \<open>error\<close>; a member function that writes returns what it wrote to.
\<close>

subsection \<open>Collaborators of the leg\<close>

text \<open>
  The headers leg.h includes are not part of the sources at hand. What the leg uses of
  them is modelled below, each from the specification.
\<close>

text \<open>Modelled from the spec: exceptions.h is missing. \<open>throw_value_error\<close> raises a
  value error that carries its message; the assertion of the mismatch routine aborts;
  the propagator may fail; a write outside of the caller's range is undefined behaviour
  and is marked as such.\<close>

datatype error =
    value_error string
  | assertion_failure
  | propagation_failure
  | write_outside_range

text \<open>The names the specification gives to the value errors of the leg.\<close>

definition InvalidTimeOrder :: error where
  "InvalidTimeOrder = value_error ''Final epoch is before initial epoch''"

definition InvalidPhysicalParameter :: error where
  "InvalidPhysicalParameter = value_error ''Gravitational constant is less or equal to zero''"

definition BufferSizeMismatch :: error where
  "BufferSizeMismatch = value_error ''Iterators distance is incompatible with the throttles size''"

text \<open>Modelled from the spec: epoch.h is missing. An epoch is a real-valued day count
  from a fixed reference, read by \<open>mjd2000()\<close>.\<close>

datatype epoch = Epoch (mjd2000: real)

text \<open>Modelled from the spec: the type \<open>array3D\<close> (three reals) and
  array3D\_operations.h are missing: the Euclidean norm, the component-wise sum and the
  component-wise difference.\<close>

datatype array3D = Array3D (c0: real) (c1: real) (c2: real)

definition norm3 :: "array3D \<Rightarrow> real" where
  "norm3 a = sqrt (c0 a * c0 a + c1 a * c1 a + c2 a * c2 a)"

definition sum3 :: "array3D \<Rightarrow> array3D \<Rightarrow> array3D" where
  "sum3 a b = Array3D (c0 a + c0 b) (c1 a + c1 b) (c2 a + c2 b)"

definition diff3 :: "array3D \<Rightarrow> array3D \<Rightarrow> array3D" where
  "diff3 a b = Array3D (c0 a - c0 b) (c1 a - c1 b) (c2 a - c2 b)"

text \<open>\<open>std::inner_product\<close> over two arrays of three doubles: the products are added to
  the initial value from left to right.\<close>

definition inner_product :: "array3D \<Rightarrow> array3D \<Rightarrow> real \<Rightarrow> real" where
  "inner_product a b init = init + c0 a * c0 b + c1 a * c1 b + c2 a * c2 b"

text \<open>Modelled from the spec: sc\_state.h is missing. A spacecraft state is a position,
  a velocity and a mass; \<open>set_state\<close> takes seven values in that order.\<close>

record sc_state =
  get_position :: array3D
  get_velocity :: array3D
  get_mass :: real

definition set_state :: "real list \<Rightarrow> sc_state \<Rightarrow> sc_state" where
  "set_state x s =
     s\<lparr>get_position := Array3D (x ! 0) (x ! 1) (x ! 2),
       get_velocity := Array3D (x ! 3) (x ! 4) (x ! 5),
       get_mass := x ! 6\<rparr>"

text \<open>Modelled from the spec: throttle.h is missing. A throttle is a validity interval
  (start and end epoch) and a 3-vector; \<open>get_norm\<close> is the norm of that vector.\<close>

record throttle =
  get_start :: epoch
  get_end :: epoch
  get_value :: array3D

definition get_norm :: "throttle \<Rightarrow> real" where
  "get_norm th = norm3 (get_value th)"

text \<open>Modelled from the spec: spacecraft.h is missing. The spacecraft model has a mass,
  a maximum thrust and a specific impulse.\<close>

record spacecraft =
  get_sc_mass :: real
  get_thrust :: real
  get_isp :: real

text \<open>Modelled from the spec: the constants of astro\_constants.h are missing: seconds
  per day and standard gravity.\<close>

definition ASTRO_DAY2SEC :: real where
  "ASTRO_DAY2SEC = 86400"

definition ASTRO_G0 :: real where
  "ASTRO_G0 = 9.80665"

text \<open>Modelled from the spec: propagate\_lagrangian.h is missing. The Kepler propagator
  takes a position, a velocity, a signed time of flight and the gravitational parameter,
  and returns the propagated position and velocity, or fails. It is a parameter of the
  mismatch routine: every theorem holds for every propagator.\<close>

type_synonym propagator = "array3D \<Rightarrow> array3D \<Rightarrow> real \<Rightarrow> real \<Rightarrow> error + array3D \<times> array3D"

subsection \<open>The leg and its setters\<close>

record leg =
  t_i :: epoch
  x_i :: sc_state
  throttles :: "throttle list"
  t_f :: epoch
  x_f :: sc_state
  sc :: spacecraft
  mu :: real

text \<open>\<open>set_leg\<close> (lines 76--96). The iterator pair is the list of the throttles it
  ranges over. The result is the outcome of the call and the leg as the call leaves
  it: an exception does not undo the assignments made before it.\<close>

definition set_leg ::
  "epoch \<Rightarrow> sc_state \<Rightarrow> throttle list \<Rightarrow> epoch \<Rightarrow> sc_state \<Rightarrow> real \<Rightarrow> leg \<Rightarrow> (error + unit) \<times> leg"
where
  "set_leg epoch_i state_i ths epoch_f state_f mu' l =
     (if mjd2000 epoch_f \<le> mjd2000 epoch_i
      then (Inl (value_error ''Final epoch is before initial epoch''), l)
      else
        let l1 = l\<lparr>t_i := epoch_i, x_i := state_i\<rparr>;
            l2 = l1\<lparr>t_f := epoch_f, x_f := state_f\<rparr>;
            l3 = l2\<lparr>throttles := ths\<rparr>
        in if mu' \<le> 0
           then (Inl (value_error ''Gravitational constant is less or equal to zero''), l3)
           else (Inr (), l3\<lparr>mu := mu'\<rparr>))"

definition get_throttles_size :: "leg \<Rightarrow> nat" where
  "get_throttles_size l = length (throttles l)"

subsection \<open>Mismatch evaluation\<close>

text \<open>The state a propagation loop carries: position, velocity, mass and the current
  time in seconds.\<close>

type_synonym pstate = "array3D \<times> array3D \<times> real \<times> real"

definition thrust_duration :: "throttle \<Rightarrow> real" where
  "thrust_duration th = (mjd2000 (get_end th) - mjd2000 (get_start th)) * ASTRO_DAY2SEC"

definition manouver_time :: "throttle \<Rightarrow> real" where
  "manouver_time th = (mjd2000 (get_start th) + mjd2000 (get_end th)) / 2 * ASTRO_DAY2SEC"

text \<open>The body of the forward loop (lines 254--265) for the throttle \<open>th\<close>.\<close>

definition fwd_segment :: "propagator \<Rightarrow> leg \<Rightarrow> throttle \<Rightarrow> pstate \<Rightarrow> error + pstate" where
  "fwd_segment propagate l th s =
     (case s of (rfwd, vfwd, mfwd, current_time_fwd) \<Rightarrow>
        (case propagate rfwd vfwd (manouver_time th - current_time_fwd) (mu l) of
           Inl e \<Rightarrow> Inl e
         | Inr (rfwd', vfwd') \<Rightarrow>
             let max_thrust = get_thrust (sc l);
                 isp = get_isp (sc l);
                 dv = Array3D
                        (max_thrust / mfwd * thrust_duration th * c0 (get_value th))
                        (max_thrust / mfwd * thrust_duration th * c1 (get_value th))
                        (max_thrust / mfwd * thrust_duration th * c2 (get_value th));
                 norm_dv = norm3 dv
             in Inr (rfwd', sum3 vfwd' dv, mfwd * exp (- norm_dv / isp / ASTRO_G0),
                     manouver_time th)))"

text \<open>The body of the backward loop (lines 276--288) for the throttle \<open>th\<close>.\<close>

definition back_segment :: "propagator \<Rightarrow> leg \<Rightarrow> throttle \<Rightarrow> pstate \<Rightarrow> error + pstate" where
  "back_segment propagate l th s =
     (case s of (rback, vback, mback, current_time_back) \<Rightarrow>
        (case propagate rback vback (manouver_time th - current_time_back) (mu l) of
           Inl e \<Rightarrow> Inl e
         | Inr (rback', vback') \<Rightarrow>
             let max_thrust = get_thrust (sc l);
                 isp = get_isp (sc l);
                 dv = Array3D
                        (- max_thrust / mback * thrust_duration th * c0 (get_value th))
                        (- max_thrust / mback * thrust_duration th * c1 (get_value th))
                        (- max_thrust / mback * thrust_duration th * c2 (get_value th));
                 norm_dv = norm3 dv
             in Inr (rback', sum3 vback' dv, mback * exp (norm_dv / isp / ASTRO_G0),
                     manouver_time th)))"

text \<open>The forward loop \<open>for (int i = 0; i < n_seg_fwd; i++)\<close> reads \<open>throttles[i]\<close>.\<close>

function fwd_loop :: "propagator \<Rightarrow> leg \<Rightarrow> nat \<Rightarrow> nat \<Rightarrow> pstate \<Rightarrow> error + pstate" where
  "fwd_loop propagate l n_seg_fwd i s =
     (if i < n_seg_fwd
      then (case fwd_segment propagate l (throttles l ! i) s of
              Inl e \<Rightarrow> Inl e
            | Inr s' \<Rightarrow> fwd_loop propagate l n_seg_fwd (i + 1) s')
      else Inr s)"
  by pat_completeness auto
termination
  by (relation "measure (\<lambda>(propagate, l, n_seg_fwd, i, s). n_seg_fwd - i)") auto

declare fwd_loop.simps [simp del]

text \<open>The backward loop \<open>for (int i = 0; i < n_seg_back; i++)\<close> reads
  \<open>throttles[throttles.size() - i - 1]\<close>.\<close>

function back_loop :: "propagator \<Rightarrow> leg \<Rightarrow> nat \<Rightarrow> nat \<Rightarrow> pstate \<Rightarrow> error + pstate" where
  "back_loop propagate l n_seg_back i s =
     (if i < n_seg_back
      then (case back_segment propagate l (throttles l ! (length (throttles l) - i - 1)) s of
              Inl e \<Rightarrow> Inl e
            | Inr s' \<Rightarrow> back_loop propagate l n_seg_back (i + 1) s')
      else Inr s)"
  by pat_completeness auto
termination
  by (relation "measure (\<lambda>(propagate, l, n_seg_back, i, s). n_seg_back - i)") auto

declare back_loop.simps [simp del]

text \<open>The forward pass (lines 237--266) and the backward pass (lines 268--289).\<close>

definition forward_pass :: "propagator \<Rightarrow> leg \<Rightarrow> error + pstate" where
  "forward_pass propagate l =
     (let n_seg = length (throttles l);
          n_seg_fwd = (n_seg + 1) div 2
      in fwd_loop propagate l n_seg_fwd 0
           (get_position (x_i l), get_velocity (x_i l), get_mass (x_i l),
            mjd2000 (t_i l) * ASTRO_DAY2SEC))"

definition backward_pass :: "propagator \<Rightarrow> leg \<Rightarrow> error + pstate" where
  "backward_pass propagate l =
     (let n_seg = length (throttles l);
          n_seg_back = n_seg div 2
      in back_loop propagate l n_seg_back 0
           (get_position (x_f l), get_velocity (x_f l), get_mass (x_f l),
            mjd2000 (t_f l) * ASTRO_DAY2SEC))"

text \<open>The computation of the mismatch (lines 237--296): both passes, the bridging
  propagation and the differences. The result is position residual, velocity residual
  and mass residual.\<close>

definition mismatch :: "propagator \<Rightarrow> leg \<Rightarrow> error + array3D \<times> array3D \<times> real" where
  "mismatch propagate l =
     (case forward_pass propagate l of
        Inl e \<Rightarrow> Inl e
      | Inr (rfwd, vfwd, mfwd, current_time_fwd) \<Rightarrow>
          (case backward_pass propagate l of
             Inl e \<Rightarrow> Inl e
           | Inr (rback, vback, mback, current_time_back) \<Rightarrow>
               (case propagate rfwd vfwd (current_time_back - current_time_fwd) (mu l) of
                  Inl e \<Rightarrow> Inl e
                | Inr (rfwd', vfwd') \<Rightarrow>
                    Inr (diff3 rfwd' rback, diff3 vfwd' vback, mfwd - mback))))"

text \<open>A write through the iterator \<open>begin + k\<close>. The caller's range is the list
  \<open>buf\<close>; a write at or beyond \<open>end\<close> leaves the range, which is undefined behaviour.\<close>

fun write_at :: "nat \<Rightarrow> real \<Rightarrow> (error + unit) \<times> real list \<Rightarrow> (error + unit) \<times> real list" where
  "write_at k x (Inl e, buf) = (Inl e, buf)"
| "write_at k x (Inr u, buf) =
     (if k < length buf then (Inr (), buf[k := x]) else (Inl write_outside_range, buf))"

text \<open>\<open>std::copy\<close> of an \<open>array3D\<close> to \<open>begin + k\<close>.\<close>

definition copy3 :: "array3D \<Rightarrow> nat \<Rightarrow> (error + unit) \<times> real list \<Rightarrow> (error + unit) \<times> real list" where
  "copy3 a k st = write_at (k + 2) (c2 a) (write_at (k + 1) (c1 a) (write_at k (c0 a) st))"

text \<open>\<open>get_mismatch_con(begin, end)\<close> (lines 233--301). \<open>ndebug\<close> tells whether the
  translation unit was compiled with \<open>NDEBUG\<close>, which removes the assertion. The result
  is the outcome and the content of the caller's range after the call.\<close>

definition get_mismatch_con ::
  "bool \<Rightarrow> propagator \<Rightarrow> leg \<Rightarrow> real list \<Rightarrow> (error + unit) \<times> real list"
where
  "get_mismatch_con ndebug propagate l buf =
     (if \<not> ndebug \<and> length buf \<noteq> 7 then (Inl assertion_failure, buf)
      else
        (case mismatch propagate l of
           Inl e \<Rightarrow> (Inl e, buf)
         | Inr (rfwd, vfwd, dm) \<Rightarrow>
             write_at 6 dm (copy3 vfwd 3 (copy3 rfwd 0 (Inr (), buf)))))"

text \<open>\<open>get_mismatch_con(sc_state retval)\<close> (lines 303--308). The parameter is passed
  by value: \<open>retval\<close> is a copy of the caller's argument \<open>arg\<close>. The array \<open>tmp\<close>
  has seven slots; all of them are written before they are read, so their initial
  content does not matter. The result is the outcome, the leg after the call, the
  caller's argument after the call, and the local \<open>retval\<close> when the call returns.\<close>

definition get_mismatch_con_sc_state ::
  "bool \<Rightarrow> propagator \<Rightarrow> leg \<Rightarrow> sc_state \<Rightarrow> (error + unit) \<times> leg \<times> sc_state \<times> sc_state"
where
  "get_mismatch_con_sc_state ndebug propagate l arg =
     (let retval = arg;
          tmp = replicate 7 0
      in (case get_mismatch_con ndebug propagate l tmp of
            (Inl e, tmp') \<Rightarrow> (Inl e, l, arg, retval)
          | (Inr u, tmp') \<Rightarrow> (Inr (), l, arg, set_state tmp' retval)))"

subsection \<open>The delta-v estimate and the throttle constraints\<close>

text \<open>\<open>evaluate_dv\<close> (lines 311--319): the loop over the index \<open>i\<close> with the
  accumulator \<open>tmp\<close>.\<close>

function evaluate_dv_loop :: "leg \<Rightarrow> nat \<Rightarrow> real \<Rightarrow> real" where
  "evaluate_dv_loop l i tmp =
     (if i < length (throttles l)
      then evaluate_dv_loop l (i + 1)
             (tmp + (mjd2000 (get_end (throttles l ! i)) - mjd2000 (get_start (throttles l ! i)))
                    * ASTRO_DAY2SEC * get_norm (throttles l ! i) * get_thrust (sc l)
                    / get_sc_mass (sc l))
      else tmp)"
  by pat_completeness auto
termination
  by (relation "measure (\<lambda>(l, i, tmp). length (throttles l) - i)") auto

declare evaluate_dv_loop.simps [simp del]

definition evaluate_dv :: "leg \<Rightarrow> real" where
  "evaluate_dv l = evaluate_dv_loop l 0 0"

text \<open>\<open>get_throttles_con\<close> (lines 332--343). The loop \<open>while (start != end)\<close> runs
  over what is left of the caller's range: the list is empty when \<open>start\<close> has
  reached \<open>end\<close>; \<open>*start = v\<close> replaces its head and \<open>++start\<close> moves on to its
  tail. After the length check the index \<open>i\<close> stays below the size of the vector.\<close>

fun throttles_con_loop :: "leg \<Rightarrow> nat \<Rightarrow> real list \<Rightarrow> real list" where
  "throttles_con_loop l i [] = []"
| "throttles_con_loop l i (x # rest) =
     inner_product (get_value (throttles l ! i)) (get_value (throttles l ! i)) (- 1)
       # throttles_con_loop l (i + 1) rest"

definition get_throttles_con :: "leg \<Rightarrow> real list \<Rightarrow> (error + unit) \<times> real list" where
  "get_throttles_con l buf =
     (if length buf \<noteq> length (throttles l)
      then (Inl (value_error ''Iterators distance is incompatible with the throttles size''), buf)
      else (Inr (), throttles_con_loop l 0 buf))"

subsection \<open>The throttle constraints in double arithmetic\<close>

text \<open>\<open>std::inner_product\<close> on doubles: every product and every sum is rounded to a
  double before it is used, in the order of the algorithm (no fused multiply-add, no
  extended precision). The rounding \<open>rnd\<close> is a parameter; the identity gives
  \<open>inner_product\<close>.\<close>

definition inner_product_rnd :: "(real \<Rightarrow> real) \<Rightarrow> array3D \<Rightarrow> array3D \<Rightarrow> real \<Rightarrow> real" where
  "inner_product_rnd rnd a b init =
     rnd (rnd (rnd (init + rnd (c0 a * c0 b)) + rnd (c1 a * c1 b)) + rnd (c2 a * c2 b))"

text \<open>\<open>get_throttles_con\<close> (lines 332--343) with that inner product.\<close>

fun throttles_con_loop_rnd :: "(real \<Rightarrow> real) \<Rightarrow> leg \<Rightarrow> nat \<Rightarrow> real list \<Rightarrow> real list" where
  "throttles_con_loop_rnd rnd l i [] = []"
| "throttles_con_loop_rnd rnd l i (x # rest) =
     inner_product_rnd rnd (get_value (throttles l ! i)) (get_value (throttles l ! i)) (- 1)
       # throttles_con_loop_rnd rnd l (i + 1) rest"

definition get_throttles_con_rnd ::
  "(real \<Rightarrow> real) \<Rightarrow> leg \<Rightarrow> real list \<Rightarrow> (error + unit) \<times> real list"
where
  "get_throttles_con_rnd rnd l buf =
     (if length buf \<noteq> length (throttles l)
      then (Inl (value_error ''Iterators distance is incompatible with the throttles size''), buf)
      else (Inr (), throttles_con_loop_rnd rnd l 0 buf))"




subsection \<open>The algorithm in the words of the specification\<close>






text \<open>The multiple of a vector, to state an increment as scalar times throttle vector.\<close>

definition scale3 :: "real \<Rightarrow> array3D \<Rightarrow> array3D" where
  "scale3 k a = Array3D (k * c0 a) (k * c1 a) (k * c2 a)"


text \<open>The constraint value of a throttle in the words of the specification: the squared
  norm of its vector minus one.\<close>

definition throttle_con :: "throttle \<Rightarrow> real" where
  "throttle_con th = (c0 (get_value th))\<^sup>2 + (c1 (get_value th))\<^sup>2 + (c2 (get_value th))\<^sup>2 - 1"


subsection \<open>Sample data\<close>

text \<open>Two propagators to run the leg on: uniform motion along the velocity, and one that
  never finds a solution. A spacecraft, three throttles of norm 1, 2 and 1/2 over three
  consecutive days, a leg without throttles whose end state is where uniform motion takes
  the start state in a day, and a leg with the three throttles.\<close>

definition drift :: propagator where
  "drift r v dt mu' = Inr (sum3 r (scale3 dt v), v)"

definition no_solution :: propagator where
  "no_solution r v dt mu' = Inl propagation_failure"

definition sample_sc :: spacecraft where
  "sample_sc = \<lparr>get_sc_mass = 1000, get_thrust = 1 / 10, get_isp = 2000\<rparr>"

definition throttle_a :: throttle where
  "throttle_a = \<lparr>get_start = Epoch 0, get_end = Epoch 1, get_value = Array3D 1 0 0\<rparr>"

definition throttle_b :: throttle where
  "throttle_b = \<lparr>get_start = Epoch 1, get_end = Epoch 2, get_value = Array3D 0 2 0\<rparr>"

definition throttle_c :: throttle where
  "throttle_c = \<lparr>get_start = Epoch 2, get_end = Epoch 3, get_value = Array3D 0 0 (1 / 2)\<rparr>"

definition state_a :: sc_state where
  "state_a = \<lparr>get_position = Array3D 1 0 0, get_velocity = Array3D 0 1 0, get_mass = 1000\<rparr>"

definition state_b :: sc_state where
  "state_b = \<lparr>get_position = Array3D 1 86400 0, get_velocity = Array3D 0 1 0, get_mass = 1000\<rparr>"

definition coast_leg :: leg where
  "coast_leg = \<lparr>t_i = Epoch 0, x_i = state_a, throttles = [], t_f = Epoch 1, x_f = state_b,
                 sc = sample_sc, mu = 1\<rparr>"

definition thrust_leg :: leg where
  "thrust_leg = \<lparr>t_i = Epoch 0, x_i = state_a, throttles = [throttle_a, throttle_b, throttle_c],
                  t_f = Epoch 3, x_f = state_b, sc = sample_sc, mu = 1\<rparr>"



section \<open>Properties\<close>

subsection \<open>Sample values\<close>

lemma get_norm_samples:
  "get_norm throttle_a = 1" "get_norm throttle_b = 2" "get_norm throttle_c = 1 / 2"
  by (simp_all add: get_norm_def norm3_def throttle_a_def throttle_b_def throttle_c_def
      real_sqrt_divide)

lemma thrust_duration_samples:
  "thrust_duration throttle_a = 86400" "thrust_duration throttle_b = 86400"
  "thrust_duration throttle_c = 86400"
  by (simp_all add: thrust_duration_def throttle_a_def throttle_b_def throttle_c_def
      ASTRO_DAY2SEC_def)

lemma mismatch_coast_leg: "mismatch drift coast_leg = Inr (Array3D 0 0 0, Array3D 0 0 0, 0)"
  by (simp add: mismatch_def forward_pass_def backward_pass_def fwd_loop.simps back_loop.simps
      coast_leg_def drift_def state_a_def state_b_def sum3_def diff3_def scale3_def
      ASTRO_DAY2SEC_def)

subsection \<open>Configuration of the leg\<close>

text \<open>C9: a call of \<open>set_leg\<close> whose final epoch is not after the
  initial epoch fails with \<open>InvalidTimeOrder\<close>, and the leg is what it was before the
  call: the check stands before the first assignment.\<close>

theorem set_leg_invalid_time_order:
  "mjd2000 epoch_f \<le> mjd2000 epoch_i \<Longrightarrow>
   set_leg epoch_i state_i ths epoch_f state_f mu' l = (Inl InvalidTimeOrder, l)"
  by (simp add: set_leg_def InvalidTimeOrder_def)

theorem set_leg_invalid_time_order_witness:
  "mjd2000 (Epoch 5) \<le> mjd2000 (Epoch 5)
   \<and> set_leg (Epoch 5) state_b [throttle_a] (Epoch 5) state_a 1 coast_leg
       = (Inl InvalidTimeOrder, coast_leg)
   \<and> mjd2000 (Epoch 4) \<le> mjd2000 (Epoch 5)
   \<and> set_leg (Epoch 5) state_b [throttle_a] (Epoch 4) state_a 1 coast_leg
       = (Inl InvalidTimeOrder, coast_leg)"
  using set_leg_invalid_time_order [of "Epoch 5" "Epoch 5" state_b "[throttle_a]" state_a 1 coast_leg]
        set_leg_invalid_time_order [of "Epoch 4" "Epoch 5" state_b "[throttle_a]" state_a 1 coast_leg]
  by simp

text \<open>C2: as stated the claim does not hold. A call of \<open>set_leg\<close> with
  \<open>mu \<le> 0\<close> fails, but the epochs are checked first: with a final epoch not after
  the initial one the failure is \<open>InvalidTimeOrder\<close> and the leg is unchanged; otherwise
  the failure is \<open>InvalidPhysicalParameter\<close>, and \<open>mu\<close> and the spacecraft keep
  their values. The check of \<open>mu\<close> stands after the assignments of the epochs, the
  states and the throttles, which the exception does not undo; the statement below says
  nothing about these fields.\<close>

theorem set_leg_nonpositive_mu:
  "mu' \<le> 0 \<Longrightarrow>
   (mjd2000 epoch_f \<le> mjd2000 epoch_i \<longrightarrow>
      set_leg epoch_i state_i ths epoch_f state_f mu' l = (Inl InvalidTimeOrder, l))
   \<and> (mjd2000 epoch_i < mjd2000 epoch_f \<longrightarrow>
      fst (set_leg epoch_i state_i ths epoch_f state_f mu' l) = Inl InvalidPhysicalParameter
      \<and> mu (snd (set_leg epoch_i state_i ths epoch_f state_f mu' l)) = mu l
      \<and> sc (snd (set_leg epoch_i state_i ths epoch_f state_f mu' l)) = sc l)"
  by (simp add: set_leg_def InvalidTimeOrder_def InvalidPhysicalParameter_def Let_def)

theorem set_leg_nonpositive_mu_witness:
  "(0 :: real) \<le> 0
   \<and> mjd2000 (Epoch 0) < mjd2000 (Epoch 1)
   \<and> fst (set_leg (Epoch 0) state_b [throttle_a] (Epoch 1) state_a 0 coast_leg)
       = Inl InvalidPhysicalParameter
   \<and> mu (snd (set_leg (Epoch 0) state_b [throttle_a] (Epoch 1) state_a 0 coast_leg)) = 1
   \<and> mjd2000 (Epoch 0) \<le> mjd2000 (Epoch 1)
   \<and> set_leg (Epoch 1) state_b [throttle_a] (Epoch 0) state_a 0 coast_leg
       = (Inl InvalidTimeOrder, coast_leg)"
  using set_leg_nonpositive_mu [of 0 "Epoch 1" "Epoch 0" state_b "[throttle_a]" state_a coast_leg]
        set_leg_nonpositive_mu [of 0 "Epoch 0" "Epoch 1" state_b "[throttle_a]" state_a coast_leg]
  by (simp add: coast_leg_def)

text \<open>The claim C2 as stated fails twice: with both arguments invalid the error is
  \<open>InvalidTimeOrder\<close>; with valid epochs and \<open>mu = 0\<close> the call fails with
  \<open>InvalidPhysicalParameter\<close> after the start state, the throttles and the end state of
  the leg were replaced.\<close>

theorem set_leg_nonpositive_mu_counterexample:
  "set_leg (Epoch 1) state_b [throttle_a] (Epoch 0) state_a 0 coast_leg
     = (Inl InvalidTimeOrder, coast_leg)
   \<and> InvalidTimeOrder \<noteq> InvalidPhysicalParameter
   \<and> set_leg (Epoch 0) state_b [throttle_a] (Epoch 1) state_a 0 coast_leg
     = (Inl InvalidPhysicalParameter,
        coast_leg\<lparr>x_i := state_b, throttles := [throttle_a], x_f := state_a\<rparr>)
   \<and> coast_leg\<lparr>x_i := state_b, throttles := [throttle_a], x_f := state_a\<rparr> \<noteq> coast_leg"
  by (simp add: set_leg_def InvalidTimeOrder_def InvalidPhysicalParameter_def Let_def
      coast_leg_def)

subsection \<open>The two passes of the mismatch evaluation\<close>













subsection \<open>The output range of the mismatch evaluation\<close>

lemma seven_slots:
  "7 \<le> length buf \<Longrightarrow>
   \<exists>b0 b1 b2 b3 b4 b5 b6. buf = b0 # b1 # b2 # b3 # b4 # b5 # b6 # drop 7 buf"
proof -
  assume len: "7 \<le> length buf"
  then have "length (take 7 buf) = Suc (Suc (Suc (Suc (Suc (Suc (Suc 0))))))" by simp
  then obtain b0 b1 b2 b3 b4 b5 b6 where "take 7 buf = [b0, b1, b2, b3, b4, b5, b6]"
    by (auto simp only: length_Suc_conv length_0_conv)
  then have "buf = b0 # b1 # b2 # b3 # b4 # b5 # b6 # drop 7 buf"
    by (metis append_take_drop_id append_Cons append_Nil)
  then show ?thesis by blast
qed

lemma write_seven:
  "7 \<le> length buf \<Longrightarrow>
   write_at 6 dm (copy3 v 3 (copy3 r 0 (Inr (), buf)))
     = (Inr (), c0 r # c1 r # c2 r # c0 v # c1 v # c2 v # dm # drop 7 buf)"
proof -
  assume "7 \<le> length buf"
  then obtain b0 b1 b2 b3 b4 b5 b6 where
    b: "buf = b0 # b1 # b2 # b3 # b4 # b5 # b6 # drop 7 buf"
    using seven_slots by blast
  show ?thesis
    by (subst b, subst (2) b) (simp add: copy3_def)
qed

text \<open>C1: as stated the claim does not hold: the mismatch routine has no length
  check but an assertion. Compiled with assertions, a call with a range whose length is
  not 7 stops at the assertion, which is an abort and no \<open>BufferSizeMismatch\<close>, and
  nothing is written. Compiled with \<open>NDEBUG\<close> the length is not looked at: when the
  range has at least seven slots and the mismatch is computed, the call succeeds and the
  first seven slots hold position, velocity and mass residual, the others what they
  held.\<close>

theorem get_mismatch_con_length_check:
  "(length buf \<noteq> 7 \<longrightarrow>
      get_mismatch_con False propagate l buf = (Inl assertion_failure, buf))
   \<and> (7 \<le> length buf \<and> mismatch propagate l = Inr (r, v, dm) \<longrightarrow>
      get_mismatch_con True propagate l buf
        = (Inr (), c0 r # c1 r # c2 r # c0 v # c1 v # c2 v # dm # drop 7 buf))"
  by (simp add: get_mismatch_con_def write_seven)

theorem get_mismatch_con_length_check_witness:
  "length [9, 9, 9, 9, 9, 9, 9, 9 :: real] \<noteq> 7
   \<and> 7 \<le> length [9, 9, 9, 9, 9, 9, 9, 9 :: real]
   \<and> mismatch drift coast_leg = Inr (Array3D 0 0 0, Array3D 0 0 0, 0)
   \<and> get_mismatch_con False drift coast_leg [9, 9, 9, 9, 9, 9, 9, 9]
       = (Inl assertion_failure, [9, 9, 9, 9, 9, 9, 9, 9])
   \<and> get_mismatch_con True drift coast_leg [9, 9, 9, 9, 9, 9, 9, 9]
       = (Inr (), [0, 0, 0, 0, 0, 0, 0, 9])"
  using get_mismatch_con_length_check
          [of "[9, 9, 9, 9, 9, 9, 9, 9]" drift coast_leg "Array3D 0 0 0" "Array3D 0 0 0" 0]
        mismatch_coast_leg
  by simp

text \<open>The claim C1 as stated fails on a range of eight slots: with \<open>NDEBUG\<close> the
  call succeeds and overwrites seven of them; with assertions it stops with the assertion
  failure, which is not the value error \<open>BufferSizeMismatch\<close>.\<close>

theorem get_mismatch_con_length_counterexample:
  "length [9, 9, 9, 9, 9, 9, 9, 9 :: real] \<noteq> 7
   \<and> get_mismatch_con True drift coast_leg [9, 9, 9, 9, 9, 9, 9, 9]
       = (Inr (), [0, 0, 0, 0, 0, 0, 0, 9])
   \<and> get_mismatch_con False drift coast_leg [9, 9, 9, 9, 9, 9, 9, 9]
       = (Inl assertion_failure, [9, 9, 9, 9, 9, 9, 9, 9])
   \<and> assertion_failure \<noteq> BufferSizeMismatch"
  by (simp add: get_mismatch_con_def mismatch_coast_leg copy3_def BufferSizeMismatch_def)

text \<open>C3: the overload \<open>get_mismatch_con(sc_state retval)\<close> takes its
  parameter by value. Whatever the outcome, the leg and the caller's argument are after
  the call what they were before. When the mismatch is computed it is stored in the local
  copy only, so the caller does not see it.\<close>

theorem get_mismatch_con_by_value:
  "fst (snd (get_mismatch_con_sc_state ndebug propagate l arg)) = l
   \<and> fst (snd (snd (get_mismatch_con_sc_state ndebug propagate l arg))) = arg
   \<and> (mismatch propagate l = Inr (r, v, dm) \<longrightarrow>
        get_mismatch_con_sc_state ndebug propagate l arg
          = (Inr (), l, arg, arg\<lparr>get_position := r, get_velocity := v, get_mass := dm\<rparr>))
   \<and> (mismatch propagate l = Inl e \<longrightarrow>
        get_mismatch_con_sc_state ndebug propagate l arg = (Inl e, l, arg, arg))"
proof -
  have ok: "get_mismatch_con ndebug propagate l (replicate 7 0)
      = (Inr (), [c0 r, c1 r, c2 r, c0 v, c1 v, c2 v, dm])"
    if "mismatch propagate l = Inr (r, v, dm)" for r v dm
    using that by (simp add: get_mismatch_con_def write_seven)
  have bad: "get_mismatch_con ndebug propagate l (replicate 7 0) = (Inl e, replicate 7 0)"
    if "mismatch propagate l = Inl e" for e
    using that by (simp add: get_mismatch_con_def)
  have r1: "get_mismatch_con_sc_state ndebug propagate l arg
          = (Inr (), l, arg, arg\<lparr>get_position := r, get_velocity := v, get_mass := dm\<rparr>)"
    if "mismatch propagate l = Inr (r, v, dm)" for r v dm
    by (simp add: get_mismatch_con_sc_state_def ok [OF that] set_state_def)
  have r2: "get_mismatch_con_sc_state ndebug propagate l arg = (Inl e, l, arg, arg)"
    if "mismatch propagate l = Inl e" for e
    by (simp add: get_mismatch_con_sc_state_def bad [OF that])
  have frame: "fst (snd (get_mismatch_con_sc_state ndebug propagate l arg)) = l
     \<and> fst (snd (snd (get_mismatch_con_sc_state ndebug propagate l arg))) = arg"
  proof (cases "mismatch propagate l")
    case (Inl e)
    then show ?thesis by (simp add: r2)
  next
    case (Inr x)
    then obtain r v dm where "mismatch propagate l = Inr (r, v, dm)"
      by (cases x) auto
    then show ?thesis by (simp add: r1)
  qed
  from frame r1 r2 show ?thesis by blast
qed

theorem get_mismatch_con_by_value_witness:
  "mismatch drift coast_leg = Inr (Array3D 0 0 0, Array3D 0 0 0, 0)
   \<and> get_mismatch_con_sc_state False drift coast_leg state_a
       = (Inr (), coast_leg, state_a,
          \<lparr>get_position = Array3D 0 0 0, get_velocity = Array3D 0 0 0, get_mass = 0\<rparr>)
   \<and> mismatch no_solution coast_leg = Inl propagation_failure
   \<and> get_mismatch_con_sc_state False no_solution coast_leg state_a
       = (Inl propagation_failure, coast_leg, state_a, state_a)"
proof -
  have f: "mismatch no_solution coast_leg = Inl propagation_failure"
    by (simp add: mismatch_def forward_pass_def backward_pass_def fwd_loop.simps
        back_loop.simps coast_leg_def no_solution_def)
  from get_mismatch_con_by_value
         [of False drift coast_leg state_a "Array3D 0 0 0" "Array3D 0 0 0" 0 propagation_failure]
       get_mismatch_con_by_value
         [of False no_solution coast_leg state_a "Array3D 0 0 0" "Array3D 0 0 0" 0 propagation_failure]
       mismatch_coast_leg f
  show ?thesis by (simp add: state_a_def)
qed

subsection \<open>The delta-v estimate\<close>

lemma evaluate_dv_loop_sum:
  "i \<le> length (throttles l) \<Longrightarrow>
   evaluate_dv_loop l i tmp =
     tmp + (\<Sum>th\<leftarrow>drop i (throttles l).
              thrust_duration th * get_norm th * (get_thrust (sc l) / get_sc_mass (sc l)))"
proof (induction l i tmp rule: evaluate_dv_loop.induct)
  case (1 l i tmp)
  show ?case
  proof (cases "i < length (throttles l)")
    case False
    then show ?thesis by (simp add: evaluate_dv_loop.simps [of l i tmp])
  next
    case True
    then have unf: "drop i (throttles l) = throttles l ! i # drop (i + 1) (throttles l)"
      by (simp add: Cons_nth_drop_Suc)
    from True have "i + 1 \<le> length (throttles l)" by simp
    from "1.IH" [OF True this] True show ?thesis
      by (simp add: evaluate_dv_loop.simps [of l i tmp] unf thrust_duration_def)
  qed
qed

text \<open>C6: \<open>evaluate_dv\<close> returns the sum over all throttles of
  \<open>duration in seconds * norm of the throttle vector * (max_thrust / spacecraft mass)\<close>,
  with the same spacecraft mass in every term.\<close>

theorem evaluate_dv_sum:
  "evaluate_dv l =
     (\<Sum>th\<leftarrow>throttles l.
        thrust_duration th * get_norm th * (get_thrust (sc l) / get_sc_mass (sc l)))"
  by (simp add: evaluate_dv_def evaluate_dv_loop_sum)

theorem evaluate_dv_sum_witness: "evaluate_dv thrust_leg = 756 / 25"
  using evaluate_dv_sum [of thrust_leg]
  by (simp add: thrust_leg_def get_norm_samples thrust_duration_samples sample_sc_def)

subsection \<open>The throttle constraints\<close>

lemma inner_product_con: "inner_product (get_value th) (get_value th) (- 1) = throttle_con th"
  by (simp add: inner_product_def throttle_con_def power2_eq_square)

lemma throttles_con_loop_map:
  "i + length buf \<le> length (throttles l) \<Longrightarrow>
   throttles_con_loop l i buf = map throttle_con (take (length buf) (drop i (throttles l)))"
proof (induction buf arbitrary: i)
  case Nil
  then show ?case by simp
next
  case (Cons x rest)
  then have len: "i < length (throttles l)" by simp
  then have unf: "drop i (throttles l) = throttles l ! i # drop (Suc i) (throttles l)"
    by (simp add: Cons_nth_drop_Suc)
  from Cons.prems have "Suc i + length rest \<le> length (throttles l)" by simp
  from Cons.IH [OF this] show ?case
    by (simp add: unf inner_product_con)
qed




text \<open>C8: \<open>get_throttles_con\<close> on a range whose length is not the throttle
  count fails with \<open>BufferSizeMismatch\<close> and leaves the range as it was. On a range of
  that length it succeeds and writes every slot: the result has throttle count many
  values and does not depend on what the range held before.\<close>

theorem get_throttles_con_length:
  "(length buf \<noteq> length (throttles l) \<longrightarrow>
      get_throttles_con l buf = (Inl BufferSizeMismatch, buf))
   \<and> (length buf = length (throttles l) \<longrightarrow>
      fst (get_throttles_con l buf) = Inr ()
      \<and> length (snd (get_throttles_con l buf)) = length (throttles l)
      \<and> (length buf' = length buf \<longrightarrow> get_throttles_con l buf' = get_throttles_con l buf))"
  by (simp add: get_throttles_con_def BufferSizeMismatch_def throttles_con_loop_map)

theorem get_throttles_con_length_witness:
  "length [7 :: real] \<noteq> length (throttles thrust_leg)
   \<and> get_throttles_con thrust_leg [7] = (Inl BufferSizeMismatch, [7])
   \<and> length [7, 7, 7 :: real] = length (throttles thrust_leg)
   \<and> fst (get_throttles_con thrust_leg [7, 7, 7]) = Inr ()
   \<and> length (snd (get_throttles_con thrust_leg [7, 7, 7])) = 3
   \<and> get_throttles_con thrust_leg [0, 0, 0] = get_throttles_con thrust_leg [7, 7, 7]"
proof -
  have n: "length (throttles thrust_leg) = 3" by (simp add: thrust_leg_def)
  from get_throttles_con_length [of "[7]" thrust_leg "[]"]
       get_throttles_con_length [of "[7, 7, 7]" thrust_leg "[0, 0, 0]"]
  show ?thesis by (simp add: n)
qed

subsection \<open>Rounding to double\<close>













subsection \<open>The throttle constraints as the doubles they are\<close>



lemma get_throttles_con_rnd_identity:
  "get_throttles_con_rnd (\<lambda>x. x) l buf = get_throttles_con l buf"
proof -
  have "throttles_con_loop_rnd (\<lambda>x. x) l i xs = throttles_con_loop l i xs" for i xs
    by (induction xs arbitrary: i) (simp_all add: inner_product_rnd_def inner_product_def)
  then show ?thesis by (simp add: get_throttles_con_rnd_def get_throttles_con_def)
qed




end
